theory Spec2Isabelle
  imports Complex_Main
begin

section \<open>Python values and failures\<close>

text \<open>
  The exceptions the modelled code can raise. \<open>Exception\<close> carries the message of
  a plain \<^verbatim>\<open>raise Exception("...")\<close>.
\<close>

datatype error = TypeError | AttributeError | IndexError | ValueError | Exception string

text \<open>
  Python indexing \<^verbatim>\<open>xs[i]\<close> on a list or a one-dimensional array: a negative index
  counts from the end, an index out of range raises IndexError.
\<close>

definition py_index :: "'a list \<Rightarrow> int \<Rightarrow> error + 'a" where
  "py_index xs i =
     (if 0 \<le> i \<and> i < int (length xs) then Inr (xs ! nat i)
      else if i < 0 \<and> - int (length xs) \<le> i then Inr (xs ! nat (int (length xs) + i))
      else Inl IndexError)"

text \<open>
  \<^verbatim>\<open>bool(a)\<close> for a numpy array \<open>a\<close>, given its elements in flat order: an empty array
  is false, an array of one element has the truth value of that element, an array of
  more than one element raises ValueError (the truth value is ambiguous).
\<close>

fun np_bool :: "'a::zero list \<Rightarrow> error + bool" where
  "np_bool [] = Inr False"
| "np_bool [x] = Inr (x \<noteq> 0)"
| "np_bool (x # y # zs) = Inl ValueError"

text \<open>
  \<^verbatim>\<open>np.zeros(n)\<close>: \<open>n\<close> zeros; a negative dimension raises ValueError. Category codes
  are modelled as integers, so the zeros of \<^verbatim>\<open>np.zeros\<close> are the integer 0
  (the code "uncategorized").
\<close>

definition np_zeros :: "int \<Rightarrow> error + int list" where
  "np_zeros n = (if n < 0 then Inl ValueError else Inr (replicate (nat n) 0))"

section \<open>miv/signal/spike/cutout.py\<close>

subsection \<open>SpikeCutout\<close>

text \<open>
  The attributes \<^verbatim>\<open>SpikeCutout.__init__\<close> assigns: \<^verbatim>\<open>cutout\<close>, \<^verbatim>\<open>sampling_rate\<close> and
  \<^verbatim>\<open>pca_comp_index\<close>. The class defines \<^verbatim>\<open>__init__\<close> and \<^verbatim>\<open>__len__\<close> only.
\<close>

record SpikeCutout =
  cutout :: "real list"
  sampling_rate :: real
  pca_comp_index :: int

text \<open>
  \<^verbatim>\<open>SpikeCutout(cutout, sampling_rate, pca_comp_index, *extra)\<close>: the constructor has
  three parameters beside \<^verbatim>\<open>self\<close>; \<open>extra\<close> lists the further positional arguments
  of a call, and a call that passes any raises TypeError. (The \<^verbatim>\<open>@dataclass\<close>
  decorator keeps an \<^verbatim>\<open>__init__\<close> that the class body defines.)
\<close>

definition SpikeCutout_init :: "real list \<Rightarrow> real \<Rightarrow> int \<Rightarrow> real list \<Rightarrow> error + SpikeCutout" where
  "SpikeCutout_init c s p extra =
     (if extra = [] then Inr \<lparr>cutout = c, sampling_rate = s, pca_comp_index = p\<rparr>
      else Inl TypeError)"

definition SpikeCutout_len :: "SpikeCutout \<Rightarrow> nat" where
  "SpikeCutout_len k = length (cutout k)"

text \<open>
  \<^verbatim>\<open>spike_cutout.time\<close>: no \<^verbatim>\<open>time\<close> attribute is ever assigned, so reading it raises
  AttributeError.
\<close>

definition SpikeCutout_time :: "SpikeCutout \<Rightarrow> error + real" where
  "SpikeCutout_time k = Inl AttributeError"

text \<open>
  Iterating over a SpikeCutout, as \<^verbatim>\<open>list(spike_cutout)\<close> and the tuple unpacking
  \<^verbatim>\<open>for cutout_index, spike_cutout in comp_cutouts\<close> do: the class has neither
  \<^verbatim>\<open>__iter__\<close> nor \<^verbatim>\<open>__getitem__\<close>, so both raise TypeError.
\<close>

definition SpikeCutout_iter :: "SpikeCutout \<Rightarrow> error + real list" where
  "SpikeCutout_iter k = Inl TypeError"

definition SpikeCutout_unpack :: "SpikeCutout \<Rightarrow> error + (nat \<times> SpikeCutout)" where
  "SpikeCutout_unpack k = Inl TypeError"

subsection \<open>ChannelSpikeCutout\<close>

record ChannelSpikeCutout =
  cutouts :: "SpikeCutout list"
  num_components :: int
  channel_index :: int
  categorized :: bool
  categorization_list :: "int list"

definition CATEGORY_NAMES :: "string list" where
  "CATEGORY_NAMES = [''uncategorized'', ''neuronal'', ''false'', ''mixed'']"

text \<open>
  \<^verbatim>\<open>ChannelSpikeCutout(cutouts, num_components, channel_index, categorization_list=None)\<close>:
  \<^verbatim>\<open>categorized = bool(categorization_list)\<close>, and the list is the argument when that is
  true, \<^verbatim>\<open>np.zeros(num_components)\<close> otherwise.
\<close>

definition ChannelSpikeCutout_init ::
  "SpikeCutout list \<Rightarrow> int \<Rightarrow> int \<Rightarrow> int list option \<Rightarrow> error + ChannelSpikeCutout" where
  "ChannelSpikeCutout_init cs n i cl =
     (case (case cl of None \<Rightarrow> Inr False | Some a \<Rightarrow> np_bool a) of
        Inl e \<Rightarrow> Inl e
      | Inr b \<Rightarrow>
          (case (if b then Inr (the cl) else np_zeros n) of
             Inl e \<Rightarrow> Inl e
           | Inr l \<Rightarrow> Inr \<lparr>cutouts = cs, num_components = n, channel_index = i,
                           categorized = b, categorization_list = l\<rparr>))"

definition ChannelSpikeCutout_len :: "ChannelSpikeCutout \<Rightarrow> nat" where
  "ChannelSpikeCutout_len c = length (cutouts c)"

text \<open>
  \<^verbatim>\<open>get_cutouts_by_component\<close>: one empty row per component index, then every cutout is
  appended to the row \<^verbatim>\<open>components[cutout.pca_comp_index]\<close> (Python list indexing).
\<close>

fun by_component_loop :: "SpikeCutout list \<Rightarrow> SpikeCutout list list \<Rightarrow> error + SpikeCutout list list" where
  "by_component_loop [] components = Inr components"
| "by_component_loop (k # ks) components =
     (case py_index components (pca_comp_index k) of
        Inl e \<Rightarrow> Inl e
      | Inr row \<Rightarrow>
          (let n = int (length components);
               j = (if pca_comp_index k < 0 then n + pca_comp_index k else pca_comp_index k)
           in by_component_loop ks (components[nat j := row @ [k]])))"

definition get_cutouts_by_component :: "ChannelSpikeCutout \<Rightarrow> error + SpikeCutout list list" where
  "get_cutouts_by_component c =
     by_component_loop (cutouts c) (replicate (nat (num_components c)) [])"

text \<open>
  \<^verbatim>\<open>categorize(category_index)\<close>. In the first branch
  \<open>0 \<le> len(category_index) < num_components\<close>, so \<^verbatim>\<open>np.zeros\<close> cannot raise there and
  the zeros are written out.
\<close>

definition categorize :: "ChannelSpikeCutout \<Rightarrow> int list \<Rightarrow> ChannelSpikeCutout" where
  "categorize c category_index =
     (if int (length category_index) < num_components c
      then c\<lparr>categorization_list := replicate (nat (num_components c)) 0, categorized := False\<rparr>
      else c\<lparr>categorization_list := category_index, categorized := True\<rparr>)"

text \<open>The dictionary \<^verbatim>\<open>get_labeled_cutouts\<close> returns.\<close>

record labeled =
  labels :: "int list"
  labeled_cutouts :: "SpikeCutout list"
  size_n :: int

fun labeled_loop :: "int list \<Rightarrow> SpikeCutout list \<Rightarrow> labeled \<Rightarrow> error + labeled" where
  "labeled_loop cl [] acc = Inr acc"
| "labeled_loop cl (k # ks) acc =
     (case py_index cl (pca_comp_index k) of
        Inl e \<Rightarrow> Inl e
      | Inr l \<Rightarrow> labeled_loop cl ks
                  \<lparr>labels = labels acc @ [l], labeled_cutouts = labeled_cutouts acc @ [k],
                   size_n = size_n acc + 1\<rparr>)"

definition get_labeled_cutouts :: "ChannelSpikeCutout \<Rightarrow> error + labeled" where
  "get_labeled_cutouts c =
     (if categorized c
      then labeled_loop (categorization_list c) (cutouts c)
             \<lparr>labels = [], labeled_cutouts = [], size_n = 0\<rparr>
      else Inr \<lparr>labels = [], labeled_cutouts = [], size_n = 0\<rparr>)"

section \<open>miv/signal/events/abnormality_detection.py\<close>

subsection \<open>Collaborators\<close>

text \<open>
  What the injected collaborators hand to \<^verbatim>\<open>_get_cutouts\<close> for one channel: the spike
  times the detector found (\<^verbatim>\<open>spontaneous_spikes[chan_index]\<close>), the waveforms
  \<^verbatim>\<open>extract_waveforms\<close> cuts out for the channel, and the component labels that
  \<^verbatim>\<open>spike_feature_extractor.project\<close> gives these waveforms at the detector's rank.
  A recording is the loaded, filtered signal with its sampling rate; its number of
  channels is \<^verbatim>\<open>spontaneous_sig.shape[1]\<close>.
\<close>

record channel_data =
  spike_times :: "real list"
  raw_cutouts :: "real list list"
  proj_labels :: "int list"

record recording =
  samp :: real
  channels :: "channel_data list"

text \<open>
  The classifier and the other library calls, over an opaque model type \<open>'m\<close>:
  \<^verbatim>\<open>model.fit\<close>, \<^verbatim>\<open>model.evaluate\<close>, \<^verbatim>\<open>predict\<close> of the model with a softmax layer on
  top, the default model of \<^verbatim>\<open>_create_default_model\<close>, \<^verbatim>\<open>sklearn.utils.shuffle\<close> on the
  two parallel lists, and, for one component, the test
  \<^verbatim>\<open>prob_model.predict(np.mean(loaded_comp_cutouts, axis=0))[0] >= accuracy_threshold\<close>.
\<close>

record 'm collaborators =
  fit :: "'m \<Rightarrow> real list list \<Rightarrow> int list \<Rightarrow> int \<Rightarrow> 'm"
  evaluate :: "'m \<Rightarrow> real list list \<Rightarrow> int list \<Rightarrow> real \<times> real"
  predict_softmax :: "'m \<Rightarrow> real list list \<Rightarrow> real list list"
  create_default_model :: "nat list \<Rightarrow> int \<Rightarrow> int \<Rightarrow> 'm"
  shuffle :: "real list list \<Rightarrow> int list \<Rightarrow> real list list \<times> int list"
  component_clears :: "'m \<Rightarrow> real list list \<Rightarrow> real \<Rightarrow> error + bool"

subsection \<open>AbnormalityDetector\<close>

text \<open>
  The detector's mutable attributes. \<open>model = None\<close> stands for the attribute
  \<^verbatim>\<open>self.model\<close> not being set yet. The detector's own flag \<^verbatim>\<open>categorized\<close> is named
  \<open>categorized_det\<close>, apart from the channel's.
\<close>

record 'm AbnormalityDetector =
  extractor_decomposition_parameter :: int
  trained :: bool
  categorized_det :: bool
  model :: "'m option"
  skipped_channels :: "int list"
  test_cutouts :: "real list list"
  test_labels :: "int list"
  model_size :: int
  num_channels :: int
  spontaneous_cutouts :: "ChannelSpikeCutout list"

text \<open>
  The inner loop of \<^verbatim>\<open>_get_cutouts\<close>: one
  \<^verbatim>\<open>SpikeCutout(raw_cutout, samp, labels[cutout_index], spontaneous_spikes[chan_index][cutout_index])\<close>
  per waveform, the arguments evaluated before the call.
\<close>

fun cutouts_loop ::
  "real \<Rightarrow> int list \<Rightarrow> real list \<Rightarrow> real list list \<Rightarrow> nat \<Rightarrow> SpikeCutout list \<Rightarrow> error + SpikeCutout list" where
  "cutouts_loop sr lbls spikes [] cutout_index channel_cutouts_list = Inr channel_cutouts_list"
| "cutouts_loop sr lbls spikes (raw_cutout # rest) cutout_index channel_cutouts_list =
     (case py_index lbls (int cutout_index) of
        Inl e \<Rightarrow> Inl e
      | Inr l \<Rightarrow>
          (case py_index spikes (int cutout_index) of
             Inl e \<Rightarrow> Inl e
           | Inr t \<Rightarrow>
               (case SpikeCutout_init raw_cutout sr l [t] of
                  Inl e \<Rightarrow> Inl e
                | Inr k \<Rightarrow> cutouts_loop sr lbls spikes rest (Suc cutout_index)
                             (channel_cutouts_list @ [k]))))"

text \<open>
  The loop over the channels: a channel with at least \<open>rank\<close> spikes gets its cutouts,
  any other channel is appended to \<^verbatim>\<open>skipped_channels\<close> and gets an empty
  ChannelSpikeCutout. The state of the loop is the pair
  \<open>(skipped_channels, exp_cutouts)\<close>.
\<close>

fun channels_loop ::
  "int \<Rightarrow> real \<Rightarrow> channel_data list \<Rightarrow> nat \<Rightarrow> int list \<times> ChannelSpikeCutout list
   \<Rightarrow> error + (int list \<times> ChannelSpikeCutout list)" where
  "channels_loop rank sr [] chan_index st = Inr st"
| "channels_loop rank sr (ch # chs) chan_index (skipped, exp_cutouts) =
     (if rank \<le> int (length (spike_times ch))
      then
        (case cutouts_loop sr (proj_labels ch) (spike_times ch) (raw_cutouts ch) 0 [] of
           Inl e \<Rightarrow> Inl e
         | Inr ks \<Rightarrow>
             (case ChannelSpikeCutout_init ks rank (int chan_index) None of
                Inl e \<Rightarrow> Inl e
              | Inr c \<Rightarrow> channels_loop rank sr chs (Suc chan_index) (skipped, exp_cutouts @ [c])))
      else
        (case ChannelSpikeCutout_init [] rank (int chan_index) None of
           Inl e \<Rightarrow> Inl e
         | Inr c \<Rightarrow> channels_loop rank sr chs (Suc chan_index)
                      (skipped @ [int chan_index], exp_cutouts @ [c])))"

text \<open>
  \<^verbatim>\<open>_get_cutouts\<close>: returns the detector with \<^verbatim>\<open>num_channels\<close> and \<^verbatim>\<open>skipped_channels\<close>
  set, and the list of ChannelSpikeCutout. An exception leaves no result.
\<close>

definition get_cutouts ::
  "'m AbnormalityDetector \<Rightarrow> recording \<Rightarrow> error + ('m AbnormalityDetector \<times> ChannelSpikeCutout list)" where
  "get_cutouts d r =
     (case channels_loop (extractor_decomposition_parameter d) (samp r) (channels r) 0 ([], []) of
        Inl e \<Rightarrow> Inl e
      | Inr (skipped, exp_cutouts) \<Rightarrow>
          Inr (d\<lparr>num_channels := int (length (channels r)), skipped_channels := skipped\<rparr>,
               exp_cutouts))"

text \<open>\<^verbatim>\<open>AbnormalityDetector.__init__\<close> on the spontaneous recording.\<close>

definition AbnormalityDetector_init :: "recording \<Rightarrow> int \<Rightarrow> error + 'm AbnormalityDetector" where
  "AbnormalityDetector_init spontaneous_data rank =
     (case get_cutouts
             \<lparr>extractor_decomposition_parameter = rank, trained = False, categorized_det = False,
              model = None, skipped_channels = [], test_cutouts = [], test_labels = [],
              model_size = 0, num_channels = 0, spontaneous_cutouts = []\<rparr>
             spontaneous_data of
        Inl e \<Rightarrow> Inl e
      | Inr (d, exp_cutouts) \<Rightarrow> Inr (d\<lparr>spontaneous_cutouts := exp_cutouts\<rparr>))"

text \<open>
  \<^verbatim>\<open>categorize_spontaneous(categorization_list)\<close>: the rows of the list are applied in order to
  \<^verbatim>\<open>self.spontaneous_cutouts[chan_index]\<close>; the flag is set after the loop. The result is
  the detector as the call leaves it and the exception raised, if any.
\<close>

fun categorize_rows ::
  "int list list \<Rightarrow> nat \<Rightarrow> ChannelSpikeCutout list \<Rightarrow> ChannelSpikeCutout list \<times> error option" where
  "categorize_rows [] chan_index cs = (cs, None)"
| "categorize_rows (chan_row # rows) chan_index cs =
     (if chan_index < length cs
      then categorize_rows rows (Suc chan_index) (cs[chan_index := categorize (cs ! chan_index) chan_row])
      else (cs, Some IndexError))"

definition categorize_spontaneous ::
  "'m AbnormalityDetector \<Rightarrow> int list list \<Rightarrow> 'm AbnormalityDetector \<times> error option" where
  "categorize_spontaneous d rows =
     (case categorize_rows rows 0 (spontaneous_cutouts d) of
        (cs, None) \<Rightarrow> (d\<lparr>spontaneous_cutouts := cs, categorized_det := True\<rparr>, None)
      | (cs, Some e) \<Rightarrow> (d\<lparr>spontaneous_cutouts := cs\<rparr>, Some e))"

text \<open>
  \<^verbatim>\<open>train_model\<close>, first part: for every label of a channel the label is appended and
  \<^verbatim>\<open>list(channel_labeled_cutouts["labeled_cutouts"][spike_index])\<close> is appended to the pool.
\<close>

fun append_labeled ::
  "int list \<Rightarrow> SpikeCutout list \<Rightarrow> nat \<Rightarrow> real list list \<times> int list \<Rightarrow> error + (real list list \<times> int list)" where
  "append_labeled [] lcs spike_index acc = Inr acc"
| "append_labeled (spike_label # rest) lcs spike_index (pool, pool_labels) =
     (case py_index lcs (int spike_index) of
        Inl e \<Rightarrow> Inl e
      | Inr k \<Rightarrow>
          (case SpikeCutout_iter k of
             Inl e \<Rightarrow> Inl e
           | Inr w \<Rightarrow> append_labeled rest lcs (Suc spike_index)
                        (pool @ [w], pool_labels @ [spike_label])))"

fun collect_labeled ::
  "ChannelSpikeCutout list \<Rightarrow> real list list \<times> int list \<times> int \<Rightarrow> error + (real list list \<times> int list \<times> int)" where
  "collect_labeled [] acc = Inr acc"
| "collect_labeled (c # cs) (pool, pool_labels, n) =
     (case get_labeled_cutouts c of
        Inl e \<Rightarrow> Inl e
      | Inr r \<Rightarrow>
          (case append_labeled (labels r) (labeled_cutouts r) 0 (pool, pool_labels) of
             Inl e \<Rightarrow> Inl e
           | Inr (pool', pool_labels') \<Rightarrow> collect_labeled cs (pool', pool_labels', n + size_n r)))"

text \<open>
  \<^verbatim>\<open>train_model(model, epochs)\<close>. \<^verbatim>\<open>int(self.model_size * 0.8)\<close> is taken in exact
  arithmetic. With no model given, the default model is built from
  \<^verbatim>\<open>len(self.spontaneous_cutouts[0].cutouts[0].cutout)\<close>, \<^verbatim>\<open>np.shape(labeled_cutouts[1])\<close> and
  \<^verbatim>\<open>len(CATEGORY_NAMES) - 1\<close>.
\<close>

definition train_model ::
  "'m collaborators \<Rightarrow> 'm AbnormalityDetector \<Rightarrow> 'm option \<Rightarrow> int \<Rightarrow> error + 'm AbnormalityDetector" where
  "train_model env d model_arg epochs =
     (case collect_labeled (spontaneous_cutouts d) ([], [], 0) of
        Inl e \<Rightarrow> Inl e
      | Inr (pool, pool_labels, n) \<Rightarrow>
          (let (labeled_cutouts', labels') = shuffle env pool pool_labels;
               split = nat \<lfloor>real_of_int n * 0.8\<rfloor>;
               train_cutouts = take split labeled_cutouts';
               train_labels = take split labels';
               d1 = d\<lparr>model_size := n, test_cutouts := drop split labeled_cutouts',
                      test_labels := drop split labels'\<rparr>
           in case (case model_arg of
                      Some m \<Rightarrow> Inr m
                    | None \<Rightarrow>
                        (case py_index (spontaneous_cutouts d) 0 of
                           Inl e \<Rightarrow> Inl e
                         | Inr c0 \<Rightarrow>
                             (case py_index (cutouts c0) 0 of
                                Inl e \<Rightarrow> Inl e
                              | Inr k0 \<Rightarrow>
                                  (case py_index labeled_cutouts' 1 of
                                     Inl e \<Rightarrow> Inl e
                                   | Inr w \<Rightarrow>
                                       Inr (create_default_model env [length w]
                                              (int (length (cutout k0)))
                                              (int (length CATEGORY_NAMES) - 1)))))) of
                Inl e \<Rightarrow> Inl e
              | Inr m \<Rightarrow>
                  Inr (d1\<lparr>model := Some (fit env m train_cutouts train_labels epochs),
                          trained := True\<rparr>)))"

text \<open>
  \<^verbatim>\<open>evaluate_model(test_cutouts, test_labels)\<close>, both arguments \<^verbatim>\<open>Optional[np.ndarray]\<close>:
  \<^verbatim>\<open>test_cutouts if test_cutouts else self.test_cutouts\<close> takes the truth value of the
  argument, which for an array is \<open>np_bool\<close> of its elements.
\<close>

record eval_result =
  test_loss :: real
  test_accuracy :: real

definition evaluate_model ::
  "'m collaborators \<Rightarrow> 'm AbnormalityDetector \<Rightarrow> real list list option \<Rightarrow> int list option
   \<Rightarrow> error + eval_result" where
  "evaluate_model env d test_cutouts_arg test_labels_arg =
     (if \<not> trained d then Inr \<lparr>test_loss = 1, test_accuracy = 0\<rparr>
      else
        (case (case test_cutouts_arg of None \<Rightarrow> Inr False | Some a \<Rightarrow> np_bool (concat a)) of
           Inl e \<Rightarrow> Inl e
         | Inr use_cutouts \<Rightarrow>
             (case (case test_labels_arg of None \<Rightarrow> Inr False | Some a \<Rightarrow> np_bool a) of
                Inl e \<Rightarrow> Inl e
              | Inr use_labels \<Rightarrow>
                  (case model d of
                     None \<Rightarrow> Inl AttributeError
                   | Some m \<Rightarrow>
                       (case evaluate env m
                               (if use_cutouts then the test_cutouts_arg else test_cutouts d)
                               (if use_labels then the test_labels_arg else test_labels d) of
                          (loss, acc) \<Rightarrow> Inr \<lparr>test_loss = loss, test_accuracy = acc\<rparr>)))))"

text \<open>The spike train of one channel: \<^verbatim>\<open>SpikeTrain(times, t_stop, pq.s)\<close>.\<close>

record SpikeTrain =
  train_times :: "real list"
  t_stop :: real

definition untrained :: error where
  "untrained = Exception ''Abnormality detector is not trained yet.''"

text \<open>
  \<^verbatim>\<open>get_only_neuronal_spikes\<close>: \<open>prediction_0_0\<close> is
  \<^verbatim>\<open>prob_model.predict(np.array([spike_cutout.cutout]))[0][0]\<close>; a cutout whose value
  reaches the threshold has \<^verbatim>\<open>spike_cutout.time\<close> appended and taken as \<^verbatim>\<open>t_stop\<close>.
\<close>

definition prediction_0_0 :: "'m collaborators \<Rightarrow> 'm \<Rightarrow> real list \<Rightarrow> error + real" where
  "prediction_0_0 env m w =
     (case py_index (predict_softmax env m [w]) 0 of
        Inl e \<Rightarrow> Inl e
      | Inr row \<Rightarrow> py_index row 0)"

fun spikes_loop ::
  "'m collaborators \<Rightarrow> 'm \<Rightarrow> real \<Rightarrow> SpikeCutout list \<Rightarrow> real list \<times> real \<Rightarrow> error + (real list \<times> real)" where
  "spikes_loop env m accuracy_threshold [] acc = Inr acc"
| "spikes_loop env m accuracy_threshold (k # ks) (ts, stop) =
     (case prediction_0_0 env m (cutout k) of
        Inl e \<Rightarrow> Inl e
      | Inr p \<Rightarrow>
          (if accuracy_threshold \<le> p
           then (case SpikeCutout_time k of
                   Inl e \<Rightarrow> Inl e
                 | Inr t \<Rightarrow> spikes_loop env m accuracy_threshold ks (ts @ [t], t))
           else spikes_loop env m accuracy_threshold ks (ts, stop)))"

fun spikes_channels ::
  "'m collaborators \<Rightarrow> 'm \<Rightarrow> real \<Rightarrow> ChannelSpikeCutout list \<Rightarrow> SpikeTrain list \<Rightarrow> error + SpikeTrain list" where
  "spikes_channels env m accuracy_threshold [] new_spiketrains = Inr new_spiketrains"
| "spikes_channels env m accuracy_threshold (c # cs) new_spiketrains =
     (case spikes_loop env m accuracy_threshold (cutouts c) ([], 0) of
        Inl e \<Rightarrow> Inl e
      | Inr (ts, stop) \<Rightarrow>
          spikes_channels env m accuracy_threshold cs
            (new_spiketrains @ [\<lparr>train_times = ts, t_stop = stop\<rparr>]))"

definition get_only_neuronal_spikes ::
  "'m collaborators \<Rightarrow> 'm AbnormalityDetector \<Rightarrow> recording \<Rightarrow> real
   \<Rightarrow> error + ('m AbnormalityDetector \<times> SpikeTrain list)" where
  "get_only_neuronal_spikes env d exp_data accuracy_threshold =
     (if \<not> trained d then Inl untrained
      else
        (case get_cutouts d exp_data of
           Inl e \<Rightarrow> Inl e
         | Inr (d', list_of_cutout_channels) \<Rightarrow>
             (case model d' of
                None \<Rightarrow> Inl AttributeError
              | Some m \<Rightarrow>
                  (case spikes_channels env m accuracy_threshold list_of_cutout_channels [] of
                     Inl e \<Rightarrow> Inl e
                   | Inr new_spiketrains \<Rightarrow> Inr (d', new_spiketrains)))))"

text \<open>
  \<^verbatim>\<open>get_only_neuronal_components\<close>. Both inner loops are written
  \<^verbatim>\<open>for cutout_index, spike_cutout in comp_cutouts\<close>, which unpacks every SpikeCutout of
  the component into a pair.
\<close>

fun load_loop :: "SpikeCutout list \<Rightarrow> real list list \<Rightarrow> error + real list list" where
  "load_loop [] loaded_comp_cutouts = Inr loaded_comp_cutouts"
| "load_loop (k # ks) loaded_comp_cutouts =
     (case SpikeCutout_unpack k of
        Inl e \<Rightarrow> Inl e
      | Inr (cutout_index, spike_cutout) \<Rightarrow>
          load_loop ks (loaded_comp_cutouts @ [cutout spike_cutout]))"

fun times_loop :: "SpikeCutout list \<Rightarrow> real list \<Rightarrow> error + real list" where
  "times_loop [] channel_times = Inr channel_times"
| "times_loop (k # ks) channel_times =
     (case SpikeCutout_unpack k of
        Inl e \<Rightarrow> Inl e
      | Inr (cutout_index, spike_cutout) \<Rightarrow>
          (case SpikeCutout_time spike_cutout of
             Inl e \<Rightarrow> Inl e
           | Inr t \<Rightarrow> times_loop ks (channel_times @ [t])))"

fun components_loop ::
  "'m collaborators \<Rightarrow> 'm \<Rightarrow> real \<Rightarrow> SpikeCutout list list \<Rightarrow> real list \<Rightarrow> error + real list" where
  "components_loop env m accuracy_threshold [] channel_times = Inr channel_times"
| "components_loop env m accuracy_threshold (comp_cutouts # rest) channel_times =
     (case load_loop comp_cutouts [] of
        Inl e \<Rightarrow> Inl e
      | Inr loaded_comp_cutouts \<Rightarrow>
          (case component_clears env m loaded_comp_cutouts accuracy_threshold of
             Inl e \<Rightarrow> Inl e
           | Inr b \<Rightarrow>
               (if b
                then (case times_loop comp_cutouts channel_times of
                        Inl e \<Rightarrow> Inl e
                      | Inr channel_times' \<Rightarrow>
                          components_loop env m accuracy_threshold rest channel_times')
                else components_loop env m accuracy_threshold rest channel_times)))"

fun components_channels ::
  "'m collaborators \<Rightarrow> 'm \<Rightarrow> real \<Rightarrow> ChannelSpikeCutout list \<Rightarrow> SpikeTrain list \<Rightarrow> error + SpikeTrain list" where
  "components_channels env m accuracy_threshold [] new_spiketrains = Inr new_spiketrains"
| "components_channels env m accuracy_threshold (c # cs) new_spiketrains =
     (case get_cutouts_by_component c of
        Inl e \<Rightarrow> Inl e
      | Inr chan_cutouts_by_comp \<Rightarrow>
          (case components_loop env m accuracy_threshold chan_cutouts_by_comp [] of
             Inl e \<Rightarrow> Inl e
           | Inr channel_times \<Rightarrow>
               components_channels env m accuracy_threshold cs
                 (new_spiketrains @
                  [\<lparr>train_times = channel_times,
                    t_stop = (if channel_times = [] then 0 else last channel_times)\<rparr>])))"

definition get_only_neuronal_components ::
  "'m collaborators \<Rightarrow> 'm AbnormalityDetector \<Rightarrow> recording \<Rightarrow> real
   \<Rightarrow> error + ('m AbnormalityDetector \<times> SpikeTrain list)" where
  "get_only_neuronal_components env d exp_data accuracy_threshold =
     (if \<not> trained d then Inl untrained
      else
        (case get_cutouts d exp_data of
           Inl e \<Rightarrow> Inl e
         | Inr (d', list_of_cutout_channels) \<Rightarrow>
             (case model d' of
                None \<Rightarrow> Inl AttributeError
              | Some m \<Rightarrow>
                  (case components_channels env m accuracy_threshold list_of_cutout_channels [] of
                     Inl e \<Rightarrow> Inl e
                   | Inr new_spiketrains \<Rightarrow> Inr (d', new_spiketrains)))))"


section \<open>Concrete inputs\<close>

text \<open>
  A channel of five spikes with components 0, 0, 1, 1, 1 and two components, not yet
  categorized, and a channel of one spike with one component.
\<close>

definition chan5 :: ChannelSpikeCutout where
  "chan5 = \<lparr>cutouts = map (\<lambda>p. \<lparr>cutout = [1, 2], sampling_rate = 30000, pca_comp_index = p\<rparr>)
                          [0, 0, 1, 1, 1],
            num_components = 2, channel_index = 0, categorized = False,
            categorization_list = [0, 0]\<rparr>"

definition chan1 :: ChannelSpikeCutout where
  "chan1 = \<lparr>cutouts = [\<lparr>cutout = [1, 2], sampling_rate = 30000, pca_comp_index = 0\<rparr>],
            num_components = 1, channel_index = 0, categorized = False,
            categorization_list = [0]\<rparr>"

text \<open>
  A recording of one channel with one detected spike, and a recording of two channels
  with one and two detected spikes.
\<close>

definition rec_one :: recording where
  "rec_one = \<lparr>samp = 30000,
              channels = [\<lparr>spike_times = [1 / 2], raw_cutouts = [[1, 2]], proj_labels = [0]\<rparr>]\<rparr>"

definition rec_two :: recording where
  "rec_two = \<lparr>samp = 30000,
              channels = [\<lparr>spike_times = [1 / 2], raw_cutouts = [[1, 2]], proj_labels = [0]\<rparr>,
                          \<lparr>spike_times = [1 / 4, 3 / 4], raw_cutouts = [[1, 2], [3, 4]],
                           proj_labels = [0, 1]\<rparr>]\<rparr>"

text \<open>
  Collaborators over the one-element model type: the classifier gives every waveform the
  probabilities 0.9, 0.05, 0.05, and its evaluation reports the number of rows it was
  given as the loss and the sum of the labels it was given as the accuracy, so that the
  result shows which data it ran on.
\<close>

definition env0 :: "unit collaborators" where
  "env0 = \<lparr>fit = (\<lambda>m x y epochs. m),
           evaluate = (\<lambda>m x y. (real (length x), real_of_int (sum_list y))),
           predict_softmax = (\<lambda>m batch. map (\<lambda>w. [9 / 10, 1 / 20, 1 / 20]) batch),
           create_default_model = (\<lambda>input_size hidden_size output_size. ()),
           shuffle = (\<lambda>x y. (x, y)),
           component_clears = (\<lambda>m loaded thr. Inr True)\<rparr>"

text \<open>
  Detectors of rank 1 over the one-spike channel: untrained; trained, with a held-out
  split; and with the channel categorized as neuronal.
\<close>

definition det0 :: "unit AbnormalityDetector" where
  "det0 = \<lparr>extractor_decomposition_parameter = 1, trained = False, categorized_det = False,
           model = None, skipped_channels = [], test_cutouts = [], test_labels = [],
           model_size = 0, num_channels = 1, spontaneous_cutouts = [chan1]\<rparr>"

definition det_trained :: "unit AbnormalityDetector" where
  "det_trained = det0\<lparr>trained := True, model := Some (), test_cutouts := [[5, 6]],
                       test_labels := [2]\<rparr>"

definition det_labeled :: "unit AbnormalityDetector" where
  "det_labeled = fst (categorize_spontaneous det0 [[1]])"

text \<open>
  A channel of two components whose one cutout carries the component index 5.
\<close>

definition chan_stray :: ChannelSpikeCutout where
  "chan_stray = \<lparr>cutouts = [\<lparr>cutout = [1, 2], sampling_rate = 30000, pca_comp_index = 5\<rparr>],
                 num_components = 2, channel_index = 0, categorized = False,
                 categorization_list = [0, 0]\<rparr>"




section \<open>Properties of the loops\<close>

lemma labeled_loop_valid:
  "\<forall>k\<in>set ks. 0 \<le> pca_comp_index k \<and> pca_comp_index k < int (length cl) \<Longrightarrow>
   labeled_loop cl ks acc =
     Inr \<lparr>labels = labels acc @ map (\<lambda>k. cl ! nat (pca_comp_index k)) ks,
          labeled_cutouts = labeled_cutouts acc @ ks,
          size_n = size_n acc + int (length ks)\<rparr>"
  by (induction ks arbitrary: acc) (auto simp: py_index_def Let_def)

lemma cutouts_loop_Cons_fails:
  "\<exists>e. cutouts_loop sr lbls spikes (raw # rest) i acc = Inl e"
  by (simp add: SpikeCutout_init_def split: sum.splits)

lemma cutouts_loop_Inr:
  "cutouts_loop sr lbls spikes raws i acc = Inr ks \<Longrightarrow> raws = [] \<and> ks = acc"
  by (cases raws) (auto simp: SpikeCutout_init_def split: sum.splits)

lemma channels_loop_fails:
  "ch \<in> set chs \<Longrightarrow> rank \<le> int (length (spike_times ch)) \<Longrightarrow> raw_cutouts ch \<noteq> [] \<Longrightarrow>
   \<exists>e. channels_loop rank sr chs i st = Inl e"
proof (induction chs arbitrary: i st)
  case Nil
  then show ?case by simp
next
  case (Cons a chs)
  obtain sk out where st: "st = (sk, out)" by (cases st)
  show ?case
  proof (cases "a = ch")
    case True
    with Cons.prems obtain raw rest where "raw_cutouts a = raw # rest"
      by (cases "raw_cutouts a") auto
    with True Cons.prems show ?thesis
      by (auto simp: st SpikeCutout_init_def split: sum.splits)
  next
    case False
    with Cons.prems have "ch \<in> set chs" by simp
    from Cons.IH [OF this Cons.prems(2,3)]
    show ?thesis by (auto simp: st split: sum.splits)
  qed
qed

lemma get_cutouts_fails:
  "ch \<in> set (channels r) \<Longrightarrow> extractor_decomposition_parameter d \<le> int (length (spike_times ch)) \<Longrightarrow>
   raw_cutouts ch \<noteq> [] \<Longrightarrow> \<exists>e. get_cutouts d r = Inl e"
  using channels_loop_fails [of ch "channels r" "extractor_decomposition_parameter d" "samp r" 0 "([], [])"]
  by (auto simp: get_cutouts_def)

lemma channels_loop_Inr:
  "channels_loop rank sr chs i (sk, out) = Inr (sk', out') \<Longrightarrow>
   out' = out @ map (\<lambda>j. \<lparr>cutouts = [], num_components = rank, channel_index = int (i + j),
                           categorized = False, categorization_list = replicate (nat rank) 0\<rparr>)
                    [0..<length chs] \<and>
   sk' = sk @ map (\<lambda>j. int (i + j))
               (filter (\<lambda>j. int (length (spike_times (chs ! j))) < rank) [0..<length chs])"
proof (induction chs arbitrary: i sk out)
  case Nil
  then show ?case by simp
next
  case (Cons a chs)
  have upt: "[0..<length (a # chs)] = 0 # map Suc [0..<length chs]"
    by (simp add: upt_conv_Cons map_Suc_upt del: upt_Suc)
  show ?case
  proof (cases "rank \<le> int (length (spike_times a))")
    case True
    with Cons.prems obtain ks c where
      ks: "cutouts_loop sr (proj_labels a) (spike_times a) (raw_cutouts a) 0 [] = Inr ks" and
      c: "ChannelSpikeCutout_init ks rank (int i) None = Inr c" and
      rest: "channels_loop rank sr chs (Suc i) (sk, out @ [c]) = Inr (sk', out')"
      by (auto split: sum.splits)
    from cutouts_loop_Inr [OF ks] have "ks = []" by simp
    with c have c_eq: "c = \<lparr>cutouts = [], num_components = rank, channel_index = int i,
                           categorized = False, categorization_list = replicate (nat rank) 0\<rparr>"
      by (auto simp: ChannelSpikeCutout_init_def np_zeros_def split: if_splits)
    from Cons.IH [OF rest] True c_eq show ?thesis
      unfolding upt by (simp add: filter_map comp_def map_idI)
  next
    case False
    with Cons.prems obtain c where
      c: "ChannelSpikeCutout_init [] rank (int i) None = Inr c" and
      rest: "channels_loop rank sr chs (Suc i) (sk @ [int i], out @ [c]) = Inr (sk', out')"
      by (auto split: sum.splits)
    from c have c_eq: "c = \<lparr>cutouts = [], num_components = rank, channel_index = int i,
                           categorized = False, categorization_list = replicate (nat rank) 0\<rparr>"
      by (auto simp: ChannelSpikeCutout_init_def np_zeros_def split: if_splits)
    from Cons.IH [OF rest] False c_eq show ?thesis
      unfolding upt by (simp add: filter_map comp_def)
  qed
qed

lemma get_cutouts_Inr_aligned:
  assumes "get_cutouts d r = Inr (d', out)"
  shows "length out = length (channels r)"
    and "\<forall>i<length out. channel_index (out ! i) = int i \<and> cutouts (out ! i) = []"
    and "skipped_channels d' =
           map int (filter (\<lambda>j. int (length (spike_times (channels r ! j))) < extractor_decomposition_parameter d)
                     [0..<length (channels r)])"
    and "num_channels d' = int (length (channels r))"
proof -
  from assms obtain sk where
    loop: "channels_loop (extractor_decomposition_parameter d) (samp r) (channels r) 0 ([], []) = Inr (sk, out)"
    and d': "d' = d\<lparr>num_channels := int (length (channels r)), skipped_channels := sk\<rparr>"
    by (auto simp: get_cutouts_def split: sum.splits)
  note R = channels_loop_Inr [OF loop]
  from R show "length out = length (channels r)" by simp
  from R show "\<forall>i<length out. channel_index (out ! i) = int i \<and> cutouts (out ! i) = []" by simp
  from R d' show "skipped_channels d' =
           map int (filter (\<lambda>j. int (length (spike_times (channels r ! j))) < extractor_decomposition_parameter d)
                     [0..<length (channels r)])" by simp
  from d' show "num_channels d' = int (length (channels r))" by simp
qed

lemma spikes_loop_keeps_nothing:
  "spikes_loop env m thr ks acc = Inr res \<Longrightarrow> res = acc"
proof (induction ks arbitrary: acc)
  case Nil
  then show ?case by simp
next
  case (Cons k ks)
  obtain ts stop where acc: "acc = (ts, stop)" by (cases acc)
  from Cons.prems have "spikes_loop env m thr ks acc = Inr res"
    by (auto simp: acc SpikeCutout_time_def split: sum.splits if_splits)
  then show ?case by (rule Cons.IH)
qed

lemma load_loop_Cons_fails: "load_loop (k # ks) acc = Inl TypeError"
  by (simp add: SpikeCutout_unpack_def)

lemma components_loop_fails:
  "cc \<in> set comps \<Longrightarrow> cc \<noteq> [] \<Longrightarrow> \<exists>e. components_loop env m thr comps ct = Inl e"
proof (induction comps arbitrary: ct)
  case Nil
  then show ?case by simp
next
  case (Cons a comps)
  show ?case
  proof (cases "a = []")
    case True
    with Cons.prems have "cc \<in> set comps" by auto
    from Cons.IH [OF this Cons.prems(2)] True show ?thesis
      by (auto split: sum.splits)
  next
    case False
    then obtain k ks where "a = k # ks" by (cases a) auto
    then show ?thesis by (simp add: SpikeCutout_unpack_def)
  qed
qed


lemma labeled_loop_size:
  "labeled_loop cl ks acc = Inr r \<Longrightarrow>
   size_n r = size_n acc + int (length ks) \<and> length (labels r) = length (labels acc) + length ks"
proof (induction ks arbitrary: acc)
  case Nil
  then show ?case by simp
next
  case (Cons k ks)
  from Cons.prems obtain l where
    "labeled_loop cl ks \<lparr>labels = labels acc @ [l], labeled_cutouts = labeled_cutouts acc @ [k],
                          size_n = size_n acc + 1\<rparr> = Inr r"
    by (auto split: sum.splits)
  from Cons.IH [OF this] show ?case by simp
qed

lemma get_labeled_cutouts_size:
  "get_labeled_cutouts c = Inr r \<Longrightarrow> size_n r = int (length (labels r))"
  using labeled_loop_size [of "categorization_list c" "cutouts c" "\<lparr>labels = [], labeled_cutouts = [], size_n = 0\<rparr>" r]
  by (auto simp: get_labeled_cutouts_def split: if_splits)

lemma append_labeled_Inr:
  "append_labeled ls lcs i acc = Inr res \<Longrightarrow> ls = [] \<and> res = acc"
  by (cases ls; cases acc) (auto simp: SpikeCutout_iter_def split: sum.splits)

lemma collect_labeled_Inr:
  "collect_labeled cs acc = Inr res \<Longrightarrow> res = acc"
proof (induction cs arbitrary: acc)
  case Nil
  then show ?case by simp
next
  case (Cons c cs)
  obtain pool pool_labels n where acc: "acc = (pool, pool_labels, n)" by (cases acc)
  from Cons.prems obtain r pool' pool_labels' where
    r: "get_labeled_cutouts c = Inr r" and
    a: "append_labeled (labels r) (labeled_cutouts r) 0 (pool, pool_labels) = Inr (pool', pool_labels')" and
    rest: "collect_labeled cs (pool', pool_labels', n + size_n r) = Inr res"
    by (auto simp: acc split: sum.splits)
  from append_labeled_Inr [OF a] have "labels r = []" "pool' = pool" "pool_labels' = pool_labels"
    by simp_all
  moreover from get_labeled_cutouts_size [OF r] \<open>labels r = []\<close> have "size_n r = 0" by simp
  ultimately show ?case using Cons.IH [OF rest] by (simp add: acc)
qed

lemma train_model_Inr_empty_pool:
  "train_model env d model_arg epochs = Inr d' \<Longrightarrow> model_size d' = 0"
proof -
  assume a: "train_model env d model_arg epochs = Inr d'"
  then obtain pool pool_labels n where
    c: "collect_labeled (spontaneous_cutouts d) ([], [], 0) = Inr (pool, pool_labels, n)"
    by (auto simp: train_model_def split: sum.splits)
  from collect_labeled_Inr [OF c] have n: "n = 0" by simp
  from a c show ?thesis
    by (auto simp: train_model_def Let_def n split: sum.splits prod.splits)
qed






lemma train_model_labeled_cutout_TypeError:
  "train_model env0 det_labeled (Some ()) 5 = Inl TypeError"
  by (simp add: det_labeled_def det0_def chan1_def categorize_spontaneous_def categorize_def
        get_labeled_cutouts_def train_model_def py_index_def SpikeCutout_iter_def)

lemma categorize_rows_length:
  "length (fst (categorize_rows rows i cs)) = length cs"
  by (induction rows arbitrary: i cs) auto

lemma categorize_rows_fits:
  "i + length rows \<le> length cs \<Longrightarrow> snd (categorize_rows rows i cs) = None"
  by (induction rows arbitrary: i cs) auto

lemma categorize_rows_overlong:
  "i \<le> length cs \<Longrightarrow> length cs < i + length rows \<Longrightarrow>
   snd (categorize_rows rows i cs) = Some IndexError"
  by (induction rows arbitrary: i cs) auto

lemma evaluate_model_untrained:
  "\<not> trained d \<Longrightarrow> evaluate_model env d tca tla = Inr \<lparr>test_loss = 1, test_accuracy = 0\<rparr>"
  by (simp add: evaluate_model_def)

lemma evaluate_model_held_out:
  "trained d \<Longrightarrow> model d = Some m \<Longrightarrow>
   evaluate_model env d None None =
     Inr \<lparr>test_loss = fst (evaluate env m (test_cutouts d) (test_labels d)),
          test_accuracy = snd (evaluate env m (test_cutouts d) (test_labels d))\<rparr>"
  by (simp add: evaluate_model_def split: prod.splits)

lemma np_bool_many: "2 \<le> length a \<Longrightarrow> np_bool a = Inl ValueError"
  by (cases a rule: np_bool.cases) auto

lemma evaluate_model_array_fails:
  "trained d \<Longrightarrow> 2 \<le> length (concat a) \<Longrightarrow> evaluate_model env d (Some a) tla = Inl ValueError"
  by (simp add: evaluate_model_def np_bool_many)

section \<open>The claims\<close>

text \<open>
  C1. \<^verbatim>\<open>categorize(L)\<close> with \<open>len(L) \<ge> num_components\<close> sets the categorization list to
  \<open>L\<close> and \<^verbatim>\<open>categorized\<close> to True; with \<open>len(L) < num_components\<close> it resets the list to
  \<open>num_components\<close> zeros and \<^verbatim>\<open>categorized\<close> to False, whatever \<open>L\<close> holds. The other
  attributes are untouched, and a second call replaces the state a first call left:
  the result is that of the second call alone.
\<close>

theorem categorize_sets_or_resets:
  "(num_components c \<le> int (length L) \<longrightarrow>
      categorization_list (categorize c L) = L \<and> categorized (categorize c L)) \<and>
   (int (length L) < num_components c \<longrightarrow>
      categorization_list (categorize c L) = replicate (nat (num_components c)) 0 \<and>
      int (length (categorization_list (categorize c L))) = num_components c \<and>
      \<not> categorized (categorize c L)) \<and>
   cutouts (categorize c L) = cutouts c \<and>
   num_components (categorize c L) = num_components c \<and>
   channel_index (categorize c L) = channel_index c \<and>
   categorize (categorize c L') L = categorize c L"
  by (auto simp: categorize_def)

theorem categorize_sets_or_resets_witness:
  "num_components chan5 \<le> int (length [1, 2 :: int]) \<and>
   categorization_list (categorize chan5 [1, 2]) = [1, 2] \<and>
   categorized (categorize chan5 [1, 2]) \<and>
   int (length [3 :: int]) < num_components chan5 \<and>
   categorization_list (categorize (categorize chan5 [1, 2]) [3]) = [0, 0] \<and>
   \<not> categorized (categorize (categorize chan5 [1, 2]) [3])"
  using categorize_sets_or_resets [of chan5 "[1, 2]"]
        categorize_sets_or_resets [of "categorize chan5 [1, 2]" "[3]"]
  by (simp add: chan5_def categorize_def numeral_2_eq_2)

text \<open>
  C2. On a categorized channel whose cutouts all carry a component index that is an index
  of the categorization list, \<^verbatim>\<open>get_labeled_cutouts\<close> returns one label per cutout, in
  the order of the cutouts: the category of the cutout's component; the cutouts
  themselves; and their number as the size. On every channel that is not categorized it
  returns empty labels, empty cutouts and size 0. The channel of five spikes with
  components 0, 0, 1, 1, 1 categorized as 1, 2 has the labels 1, 1, 2, 2, 2. Without the
  condition on the component indices the statement fails: a categorized channel of two
  components with a cutout of component 5 raises IndexError.
\<close>

theorem get_labeled_cutouts_per_cutout:
  "(categorized c \<and>
    (\<forall>k\<in>set (cutouts c).
        0 \<le> pca_comp_index k \<and> pca_comp_index k < int (length (categorization_list c))) \<longrightarrow>
      get_labeled_cutouts c =
        Inr \<lparr>labels = map (\<lambda>k. categorization_list c ! nat (pca_comp_index k)) (cutouts c),
             labeled_cutouts = cutouts c,
             size_n = int (length (cutouts c))\<rparr>) \<and>
   (\<not> categorized c \<longrightarrow>
      get_labeled_cutouts c = Inr \<lparr>labels = [], labeled_cutouts = [], size_n = 0\<rparr>) \<and>
   map pca_comp_index (cutouts (categorize chan5 [1, 2])) = [0, 0, 1, 1, 1] \<and>
   get_labeled_cutouts (categorize chan5 [1, 2]) =
     Inr \<lparr>labels = [1, 1, 2, 2, 2], labeled_cutouts = cutouts chan5, size_n = 5\<rparr>"
  by (simp add: get_labeled_cutouts_def labeled_loop_valid)
     (simp add: chan5_def categorize_def py_index_def)

theorem get_labeled_cutouts_per_cutout_witness:
  "categorized (categorize chan5 [1, 2]) \<and>
   categorization_list (categorize chan5 [1, 2]) = [1, 2] \<and>
   map pca_comp_index (cutouts (categorize chan5 [1, 2])) = [0, 0, 1, 1, 1] \<and>
   get_labeled_cutouts (categorize chan5 [1, 2]) =
     Inr \<lparr>labels = [1, 1, 2, 2, 2], labeled_cutouts = cutouts chan5, size_n = 5\<rparr> \<and>
   \<not> categorized chan5 \<and>
   get_labeled_cutouts chan5 = Inr \<lparr>labels = [], labeled_cutouts = [], size_n = 0\<rparr>"
  using get_labeled_cutouts_per_cutout [of "categorize chan5 [1, 2]"]
        get_labeled_cutouts_per_cutout [of chan5]
  by (simp add: chan5_def categorize_def)

theorem get_labeled_cutouts_stray_component_counterexample:
  "categorized (categorize chan_stray [1, 2]) \<and>
   get_labeled_cutouts (categorize chan_stray [1, 2]) = Inl IndexError"
  by (simp add: chan_stray_def categorize_def get_labeled_cutouts_def py_index_def)

text \<open>
  C3. The claim gives every SpikeCutout the four fields cutout, sampling rate, component
  index and time, one SpikeCutout being created per detected spike with its time. The
  constructor takes three arguments: the call of \<^verbatim>\<open>_get_cutouts\<close>, which passes the spike
  time as a fourth, raises TypeError, reading \<^verbatim>\<open>time\<close> from a SpikeCutout raises
  AttributeError, and constructing a detector on a recording of one channel with one
  spike, at rank 1, raises TypeError instead of creating the SpikeCutout.
\<close>

theorem SpikeCutout_takes_no_time:
  "SpikeCutout_init w sr p [t] = Inl TypeError \<and>
   SpikeCutout_time k = Inl AttributeError \<and>
   (AbnormalityDetector_init rec_one 1 :: error + unit AbnormalityDetector) = Inl TypeError"
  by (simp add: SpikeCutout_init_def SpikeCutout_time_def AbnormalityDetector_init_def
        get_cutouts_def rec_one_def py_index_def)



text \<open>
  C5. On a detector that is not trained, \<^verbatim>\<open>get_only_neuronal_spikes\<close> and
  \<^verbatim>\<open>get_only_neuronal_components\<close> both raise the exception "Abnormality detector is not
  trained yet." and return no spike trains, for every recording, threshold and
  classifier.
\<close>

theorem inference_requires_trained:
  "\<not> trained d \<Longrightarrow>
   get_only_neuronal_spikes env d exp_data accuracy_threshold =
     Inl (Exception ''Abnormality detector is not trained yet.'') \<and>
   get_only_neuronal_components env d exp_data accuracy_threshold =
     Inl (Exception ''Abnormality detector is not trained yet.'')"
  by (simp add: get_only_neuronal_spikes_def get_only_neuronal_components_def untrained_def)

theorem inference_requires_trained_witness:
  "\<not> trained det0 \<and>
   get_only_neuronal_spikes env0 det0 rec_one (9 / 10) =
     Inl (Exception ''Abnormality detector is not trained yet.'') \<and>
   get_only_neuronal_components env0 det0 rec_one (9 / 10) =
     Inl (Exception ''Abnormality detector is not trained yet.'')"
  using inference_requires_trained [of det0 env0 rec_one "9 / 10"]
  by (simp add: det0_def)

text \<open>
  C6. The claim has \<^verbatim>\<open>_get_cutouts\<close> always return one ChannelSpikeCutout per channel, in
  channel order, an empty one for each channel with fewer spikes than the rank. On the
  recording of two channels at rank 2, the first channel (one spike) is skipped and the
  second (two spikes) is not: building its first SpikeCutout raises TypeError, so
  neither \<^verbatim>\<open>_get_cutouts\<close> nor the constructor of the detector returns any channel.
\<close>

theorem get_cutouts_aborts_on_spiking_channel:
  "get_cutouts (det0\<lparr>extractor_decomposition_parameter := 2\<rparr>) rec_two = Inl TypeError \<and>
   (AbnormalityDetector_init rec_two 2 :: error + unit AbnormalityDetector) = Inl TypeError"
  by (simp add: AbnormalityDetector_init_def get_cutouts_def rec_two_def det0_def py_index_def
        ChannelSpikeCutout_init_def np_zeros_def SpikeCutout_init_def)

text \<open>
  C7. The claim has \<^verbatim>\<open>get_only_neuronal_spikes\<close> keep a spike whose probability is at
  least the threshold, a spike scoring exactly the threshold included, and end the spike
  train at the last kept spike. With a classifier that scores every waveform 0.9 and the
  threshold 0.9, the trained detector raises TypeError on the recording of one spike,
  while extracting the cutouts; run on a channel that already holds the cutout, the loop
  raises AttributeError where it reads the time of the spike it is about to keep.
\<close>

theorem neuronal_spikes_loses_threshold_spike:
  "trained det_trained \<and>
   prediction_0_0 env0 () [1, 2] = Inr (9 / 10) \<and>
   get_only_neuronal_spikes env0 det_trained rec_one (9 / 10) = Inl TypeError \<and>
   spikes_channels env0 () (9 / 10) [chan1] [] = Inl AttributeError"
  by (simp add: det_trained_def det0_def get_only_neuronal_spikes_def get_cutouts_def rec_one_def
        py_index_def SpikeCutout_init_def prediction_0_0_def env0_def chan1_def
        SpikeCutout_time_def)

text \<open>
  C8. The claim has \<^verbatim>\<open>get_only_neuronal_components\<close> group the cutouts of a channel by
  component, score the mean waveform of each component once and keep the times of all
  spikes of a component that clears the threshold. The trained detector raises TypeError
  on the recording of one spike, while extracting the cutouts; run on a channel that
  already holds the cutout, the grouping gives the one component with its cutout, and
  the loop over that component raises TypeError where it unpacks the SpikeCutout into a
  pair, before any mean is taken or any time is kept.
\<close>

theorem neuronal_components_aborts_on_component:
  "get_only_neuronal_components env0 det_trained rec_one (9 / 10) = Inl TypeError \<and>
   get_cutouts_by_component chan1 = Inr [cutouts chan1] \<and>
   components_channels env0 () (9 / 10) [chan1] [] = Inl TypeError"
  by (simp add: det_trained_def det0_def get_only_neuronal_components_def get_cutouts_def
        rec_one_def py_index_def SpikeCutout_init_def chan1_def get_cutouts_by_component_def
        SpikeCutout_unpack_def)

text \<open>
  C9. The claim has \<^verbatim>\<open>evaluate_model\<close> run the classifier on the test data the caller
  supplies. On the trained detector, a supplied array of two samples with a supplied
  label array raises ValueError, where the truth value of the array is taken; and a
  supplied array of one sample with the supplied label array \<open>[0]\<close> is evaluated against
  the held-out labels \<open>[2]\<close>, the array \<open>[0]\<close> counting as false.
\<close>

theorem evaluate_model_rejects_supplied_arrays:
  "trained det_trained \<and>
   evaluate_model env0 det_trained (Some [[1 / 10, 2 / 10]]) (Some [1]) = Inl ValueError \<and>
   evaluate_model env0 det_trained (Some [[1 / 10]]) (Some [0]) =
     Inr \<lparr>test_loss = 1, test_accuracy = 2\<rparr> \<and>
   evaluate env0 () [[1 / 10]] [0] = (1, 0)"
  by (simp add: det_trained_def det0_def evaluate_model_def env0_def)

text \<open>
  C10. For every categorization list with at most as many rows as the detector has
  channels, the empty list and rows shorter than the component count included,
  \<^verbatim>\<open>categorize_spontaneous\<close> raises nothing and leaves the detector's flag
  \<^verbatim>\<open>categorized\<close> True. For every list with more rows than channels it raises IndexError
  and the flag keeps the value it had before the call: on the detector with one channel,
  two rows leave the flag False.
\<close>

theorem categorize_spontaneous_sets_flag:
  "(length rows \<le> length (spontaneous_cutouts d) \<longrightarrow>
      snd (categorize_spontaneous d rows) = None \<and>
      categorized_det (fst (categorize_spontaneous d rows))) \<and>
   (length (spontaneous_cutouts d) < length rows \<longrightarrow>
      snd (categorize_spontaneous d rows) = Some IndexError \<and>
      categorized_det (fst (categorize_spontaneous d rows)) = categorized_det d)"
  using categorize_rows_fits [of 0 rows "spontaneous_cutouts d"]
        categorize_rows_overlong [of 0 "spontaneous_cutouts d" rows]
  by (auto simp: categorize_spontaneous_def split: prod.splits option.splits)

theorem categorize_spontaneous_sets_flag_witness:
  "length [[] :: int list] \<le> length (spontaneous_cutouts det0) \<and>
   snd (categorize_spontaneous det0 [[]]) = None \<and>
   categorized_det (fst (categorize_spontaneous det0 [[]])) \<and>
   map categorized (spontaneous_cutouts (fst (categorize_spontaneous det0 [[]]))) = [False] \<and>
   snd (categorize_spontaneous det0 []) = None \<and>
   categorized_det (fst (categorize_spontaneous det0 [])) \<and>
   length (spontaneous_cutouts det0) < length [[1], [1 :: int]] \<and>
   snd (categorize_spontaneous det0 [[1], [1]]) = Some IndexError \<and>
   categorized_det (fst (categorize_spontaneous det0 [[1], [1]])) = categorized_det det0"
  using categorize_spontaneous_sets_flag [of "[[]]" det0]
        categorize_spontaneous_sets_flag [of "[]" det0]
        categorize_spontaneous_sets_flag [of "[[1], [1]]" det0]
  by (simp add: det0_def chan1_def categorize_spontaneous_def categorize_def)

theorem categorize_spontaneous_overlong_counterexample:
  "snd (categorize_spontaneous det0 [[1], [1]]) = Some IndexError \<and>
   \<not> categorized_det (fst (categorize_spontaneous det0 [[1], [1]]))"
  by (simp add: det0_def chan1_def categorize_spontaneous_def categorize_def)

end
